theory Spec2Isabelle
  imports Complex_Main
begin

section \<open>Data model of the pricing engine\<close>

text \<open>
  A Python string that the engine builds or stores as a product code is a list of Unicode
  code points; \<open>codepoints\<close> embeds a string of characters below 256, one code point each.
  Tier names, group names and rule keys, which are only compared for equality, and the four
  names of the enumeration stay plain strings.
\<close>

type_synonym pystr = "nat list"

definition codepoints :: "string \<Rightarrow> pystr" where
  "codepoints s = map of_char s"

text \<open>
  The engine has one exception class, \<^verbatim>\<open>PricingError\<close>, raised with three different
  messages. A raise is the left injection of a sum; the payload is the message.
  \<^verbatim>\<open>ValueError\<close> is what the builtins \<^verbatim>\<open>int\<close> and \<^verbatim>\<open>min\<close> raise.
\<close>

datatype error = PricingError pystr | ValueError

datatype PriceType = CUSTOMER | TIER | GROUP | NORMAL

text \<open>\<^verbatim>\<open>PriceType.value\<close>: the string of each member of the enumeration.\<close>

fun PriceType_value :: "PriceType \<Rightarrow> string" where
  "PriceType_value CUSTOMER = ''CUSTOMER''"
| "PriceType_value TIER = ''TIER''"
| "PriceType_value GROUP = ''GROUP''"
| "PriceType_value NORMAL = ''NORMAL''"

text \<open>
  The field \<^verbatim>\<open>key: Optional[Union[int, str]]\<close>. The tag is what \<^verbatim>\<open>isinstance\<close>
  inspects at run time.
\<close>

datatype key_value = KNone | KInt int | KStr string

text \<open>
  The dataclass \<^verbatim>\<open>PriceEntry\<close>. Prices are numbers that are compared with \<^verbatim>\<open><\<close> and
  \<^verbatim>\<open>!=\<close> only; they are modelled as reals (the order of Python numbers without NaN).
\<close>

record PriceEntry =
  product_id :: pystr
  min_qty :: int
  price :: real
  source :: PriceType
  key :: key_value

text \<open>The attributes set by \<^verbatim>\<open>PricingEngine.__init__\<close>; the dictionaries are maps.\<close>

record PricingEngine =
  prices :: "PriceEntry list"
  customer_tiers :: "int \<rightharpoonup> string"
  customer_groups :: "int \<rightharpoonup> string"

text \<open>The class attribute \<^verbatim>\<open>PRIORITY\<close>: lower number, higher priority.\<close>

fun PRIORITY :: "PriceType \<Rightarrow> nat" where
  "PRIORITY CUSTOMER = 1"
| "PRIORITY TIER = 2"
| "PRIORITY GROUP = 3"
| "PRIORITY NORMAL = 4"

text \<open>
  The argument \<^verbatim>\<open>product_id: Union[int, str]\<close> of both methods. A string argument is a
  string of code points below 256 (Latin-1), one \<open>char\<close> for each code point: on these the
  builtins \<^verbatim>\<open>str.upper\<close>, \<^verbatim>\<open>str.isdigit\<close> and \<^verbatim>\<open>int\<close> are modelled exactly.
\<close>

datatype product_ident = PInt int | PStr string

text \<open>The dictionary returned by \<^verbatim>\<open>get_best_price\<close>, one field per key.\<close>

record best_price =
  res_product_id :: pystr
  res_price :: real
  res_price_type :: string

section \<open>Strings and number formatting\<close>

text \<open>
  \<^verbatim>\<open>str.upper\<close> maps each character to its full upper-case mapping and concatenates the
  results. On the code points below 256: the letters \<^verbatim>\<open>a\<close> to \<^verbatim>\<open>z\<close> and the accented
  letters U+00E0 to U+00FE (the division sign U+00F7 apart) move down by 32, the micro
  sign U+00B5 becomes U+039C, the sharp s U+00DF becomes \<^verbatim>\<open>SS\<close>, U+00FF becomes U+0178,
  and every other character is kept.
\<close>

definition upper_char :: "char \<Rightarrow> pystr" where
  "upper_char c =
     (let n = of_char c in
      if 97 \<le> n \<and> n \<le> 122 then [n - 32]
      else if n = 181 then [924]
      else if n = 223 then [83, 83]
      else if 224 \<le> n \<and> n \<le> 254 \<and> n \<noteq> 247 then [n - 32]
      else if n = 255 then [376]
      else [n])"

definition upper :: "string \<Rightarrow> pystr" where
  "upper s = concat (map upper_char s)"

definition startswith :: "pystr \<Rightarrow> pystr \<Rightarrow> bool" where
  "startswith s pre = (take (length pre) s = pre)"

text \<open>The decimal digits \<^verbatim>\<open>0\<close> to \<^verbatim>\<open>9\<close>.\<close>

definition is_decimal_char :: "char \<Rightarrow> bool" where
  "is_decimal_char c = (c \<in> set ''0123456789'')"

text \<open>
  \<^verbatim>\<open>str.isdigit\<close>: false on the empty string; below 256 its digits are the decimal digits
  and the superscripts U+00B2, U+00B3 and U+00B9.
\<close>

definition isdigit_char :: "char \<Rightarrow> bool" where
  "isdigit_char c = (is_decimal_char c \<or> c \<in> set [CHR 0xB2, CHR 0xB3, CHR 0xB9])"

definition isdigit :: "string \<Rightarrow> bool" where
  "isdigit s = (s \<noteq> [] \<and> list_all isdigit_char s)"

definition digit_char :: "nat \<Rightarrow> char" where
  "digit_char d = ''0123456789'' ! d"

definition digit_val :: "char \<Rightarrow> nat" where
  "digit_val c = (case map_of (zip ''0123456789'' [0, 1, 2, 3, 4, 5, 6, 7, 8, 9]) c of
                    None \<Rightarrow> 0
                  | Some d \<Rightarrow> d)"

text \<open>The decimal digits of a natural number, most significant first.\<close>

fun str_nat :: "nat \<Rightarrow> string" where
  "str_nat n = (if n < 10 then [digit_char n] else str_nat (n div 10) @ [digit_char (n mod 10)])"

declare str_nat.simps [simp del]

text \<open>\<^verbatim>\<open>str(n)\<close> for an integer, as an f-string prints it without a format.\<close>

definition str_int :: "int \<Rightarrow> string" where
  "str_int n = (if n < 0 then ''-'' @ str_nat (nat (- n)) else str_nat (nat n))"

text \<open>
  The format \<^verbatim>\<open>03d\<close>: minimum width 3, padded with zeros between the sign and the digits.
\<close>

definition format_03d :: "int \<Rightarrow> string" where
  "format_03d n =
     (let sign = (if n < 0 then ''-'' else '''');
          digits = str_nat (nat \<bar>n\<bar>)
      in sign @ replicate (3 - (length sign + length digits)) (CHR ''0'') @ digits)"

text \<open>The value of a string of decimal digits.\<close>

definition int_of_str :: "string \<Rightarrow> int" where
  "int_of_str s = int (foldl (\<lambda>acc c. 10 * acc + digit_val c) 0 s)"

text \<open>
  \<^verbatim>\<open>int(s)\<close> on a string that \<^verbatim>\<open>isdigit\<close> accepts, the only strings the normaliser passes
  to it: the value when every character is a decimal digit, and \<^verbatim>\<open>ValueError\<close> when a
  superscript digit occurs. (The limit of recent interpreters on the number of digits, a
  configurable guard of the conversion, is left out.)
\<close>

definition py_int :: "string \<Rightarrow> error + int" where
  "py_int s =
     (if s \<noteq> [] \<and> list_all is_decimal_char s then Inr (int_of_str s) else Inl ValueError)"

section \<open>The engine\<close>

definition normalize_product_code :: "product_ident \<Rightarrow> error + pystr" where
  "normalize_product_code pid =
     (case pid of
        PInt n \<Rightarrow> Inr (codepoints (''P'' @ format_03d n))
      | PStr s \<Rightarrow>
          if startswith (upper s) (codepoints ''P'') then Inr (upper s)
          else if isdigit s then
            (case py_int s of
               Inl e \<Rightarrow> Inl e
             | Inr n \<Rightarrow> Inr (codepoints (''P'' @ format_03d n)))
          else Inl (PricingError (codepoints ''Invalid product_id: '' @ codepoints s)))"

text \<open>The condition of the list comprehension that builds \<^verbatim>\<open>applicable\<close>.\<close>

definition is_applicable ::
  "pystr \<Rightarrow> int \<Rightarrow> int \<Rightarrow> string option \<Rightarrow> string option \<Rightarrow> PriceEntry \<Rightarrow> bool" where
  "is_applicable prod_code quantity customer_id tier grp p =
     (product_id p = prod_code
      \<and> quantity \<ge> min_qty p
      \<and> ((source p = CUSTOMER
            \<and> (case key p of KInt k \<Rightarrow> k = customer_id | _ \<Rightarrow> False))
          \<or> (source p = TIER
            \<and> (case key p of KStr k \<Rightarrow> Some k = tier | _ \<Rightarrow> False))
          \<or> (source p = GROUP
            \<and> (case key p of KStr k \<Rightarrow> Some k = grp | _ \<Rightarrow> False))
          \<or> source p = NORMAL))"

definition applicable_entries :: "PricingEngine \<Rightarrow> pystr \<Rightarrow> int \<Rightarrow> int \<Rightarrow> PriceEntry list" where
  "applicable_entries eng prod_code quantity customer_id =
     (let tier = customer_tiers eng customer_id;
          grp = customer_groups eng customer_id
      in filter (is_applicable prod_code quantity customer_id tier grp) (prices eng))"

text \<open>The key function of the call of \<^verbatim>\<open>min\<close>, and Python's \<^verbatim>\<open><\<close> on pairs.\<close>

definition min_key :: "PriceEntry \<Rightarrow> nat \<times> real" where
  "min_key p = (PRIORITY (source p), price p)"

fun tuple_lt :: "nat \<times> real \<Rightarrow> nat \<times> real \<Rightarrow> bool" where
  "tuple_lt (a, b) (c, d) = (if a \<noteq> c then a < c else b < d)"

text \<open>
  \<^verbatim>\<open>min(iterable, key=...)\<close>: the first item is the running minimum, and a later item
  replaces it only when its key is strictly smaller. On an empty list \<^verbatim>\<open>min\<close> raises
  \<^verbatim>\<open>ValueError\<close>, the value \<open>None\<close> here.
\<close>

fun py_min_from :: "PriceEntry \<Rightarrow> PriceEntry list \<Rightarrow> PriceEntry" where
  "py_min_from best [] = best"
| "py_min_from best (x # xs) =
     py_min_from (if tuple_lt (min_key x) (min_key best) then x else best) xs"

fun py_min :: "PriceEntry list \<Rightarrow> PriceEntry option" where
  "py_min [] = None"
| "py_min (x # xs) = Some (py_min_from x xs)"

definition get_best_price ::
  "PricingEngine \<Rightarrow> product_ident \<Rightarrow> int \<Rightarrow> int \<Rightarrow> error + best_price" where
  "get_best_price eng pid quantity customer_id =
     (if quantity \<le> 0 then Inl (PricingError (codepoints ''Quantity must be greater than zero.''))
      else
        (case normalize_product_code pid of
           Inl e \<Rightarrow> Inl e
         | Inr prod_code \<Rightarrow>
             (let applicable = applicable_entries eng prod_code quantity customer_id
              in (if applicable = [] then
                    Inl (PricingError (codepoints ''No price found for '' @ prod_code
                           @ codepoints ('' with quantity '' @ str_int quantity @ ''.'')))
                  else
                    (case py_min applicable of
                       None \<Rightarrow> Inl ValueError
                     | Some best \<Rightarrow>
                         Inr \<lparr>res_product_id = product_id best,
                              res_price = price best,
                              res_price_type = PriceType_value (source best)\<rparr>)))))"

section \<open>Auxiliary definitions\<close>

text \<open>The message of the third raise and the returned dictionary, named for the proofs.\<close>

definition no_price_msg :: "pystr \<Rightarrow> int \<Rightarrow> pystr" where
  "no_price_msg prod_code quantity =
     codepoints ''No price found for '' @ prod_code
       @ codepoints ('' with quantity '' @ str_int quantity @ ''.'')"

definition result_of :: "PriceEntry \<Rightarrow> best_price" where
  "result_of best = \<lparr>res_product_id = product_id best, res_price = price best,
      res_price_type = PriceType_value (source best)\<rparr>"

text \<open>
  The applicability of a rule as the specification words it: a \<^verbatim>\<open>CUSTOMER\<close> rule needs
  the customer's identifier as its integer key, a \<^verbatim>\<open>TIER\<close> or \<^verbatim>\<open>GROUP\<close> rule needs
  the customer's tier or group, looked up in the mappings, as its string key, and a
  \<^verbatim>\<open>NORMAL\<close> rule applies to everyone.
\<close>

definition scope_applies :: "PricingEngine \<Rightarrow> int \<Rightarrow> PriceEntry \<Rightarrow> bool" where
  "scope_applies eng customer_id p =
     (case source p of
        CUSTOMER \<Rightarrow> key p = KInt customer_id
      | TIER \<Rightarrow> (case customer_tiers eng customer_id of
                  None \<Rightarrow> False | Some t \<Rightarrow> key p = KStr t)
      | GROUP \<Rightarrow> (case customer_groups eng customer_id of
                  None \<Rightarrow> False | Some g \<Rightarrow> key p = KStr g)
      | NORMAL \<Rightarrow> True)"

text \<open>A string begins with \<^verbatim>\<open>P\<close> or \<^verbatim>\<open>p\<close>.\<close>

definition starts_with_P_or_p :: "string \<Rightarrow> bool" where
  "starts_with_P_or_p s = (case s of [] \<Rightarrow> False | c # _ \<Rightarrow> c = CHR ''P'' \<or> c = CHR ''p'')"

text \<open>
  A canonical product code as the rules carry it: \<^verbatim>\<open>P\<close> followed by decimal digits only
  (the codes \<^verbatim>\<open>P001\<close>, \<^verbatim>\<open>P002\<close>, ... of the rule sets are of this form).
\<close>

definition canonical_code :: "pystr \<Rightarrow> bool" where
  "canonical_code c =
     (case c of
        [] \<Rightarrow> False
      | x # d \<Rightarrow>
          x = of_char (CHR ''P'') \<and> list_all (\<lambda>k. k \<in> set (codepoints ''0123456789'')) d)"

section \<open>Example data\<close>

text \<open>The rules, mappings and engine of \<^verbatim>\<open>test_pricing_engine.py\<close>.\<close>

definition test_prices :: "PriceEntry list" where
  "test_prices =
     [\<lparr>product_id = codepoints ''P001'', min_qty = 1, price = 100, source = NORMAL, key = KNone\<rparr>,
      \<lparr>product_id = codepoints ''P002'', min_qty = 1, price = 10, source = NORMAL, key = KNone\<rparr>,
      \<lparr>product_id = codepoints ''P001'', min_qty = 3, price = 95, source = TIER, key = KStr ''GOLD''\<rparr>,
      \<lparr>product_id = codepoints ''P003'', min_qty = 2, price = 50, source = GROUP, key = KStr ''GRP1''\<rparr>,
      \<lparr>product_id = codepoints ''P002'', min_qty = 1, price = 5, source = CUSTOMER, key = KInt 6\<rparr>]"

definition test_engine :: PricingEngine where
  "test_engine =
     \<lparr>prices = test_prices,
      customer_tiers = [2 \<mapsto> ''GOLD'', 6 \<mapsto> ''SILVER''],
      customer_groups = [6 \<mapsto> ''GRP1'']\<rparr>"

text \<open>
  A second rule set for one product: three \<^verbatim>\<open>NORMAL\<close> rules of which two share the
  lowest price, a \<^verbatim>\<open>CUSTOMER\<close> rule dearer than all of them, a \<^verbatim>\<open>CUSTOMER\<close> rule with
  a string key, a \<^verbatim>\<open>TIER\<close> rule with an integer key and a well-formed \<^verbatim>\<open>TIER\<close> rule.
\<close>

definition normal_12 :: PriceEntry where
  "normal_12 = \<lparr>product_id = codepoints ''P001'', min_qty = 1, price = 12, source = NORMAL, key = KNone\<rparr>"

definition normal_10_first :: PriceEntry where
  "normal_10_first =
     \<lparr>product_id = codepoints ''P001'', min_qty = 1, price = 10, source = NORMAL, key = KNone\<rparr>"

definition normal_10_second :: PriceEntry where
  "normal_10_second =
     \<lparr>product_id = codepoints ''P001'', min_qty = 2, price = 10, source = NORMAL, key = KNone\<rparr>"

definition customer_50 :: PriceEntry where
  "customer_50 =
     \<lparr>product_id = codepoints ''P001'', min_qty = 1, price = 50, source = CUSTOMER, key = KInt 6\<rparr>"

definition customer_str_key :: PriceEntry where
  "customer_str_key =
     \<lparr>product_id = codepoints ''P001'', min_qty = 1, price = 1, source = CUSTOMER, key = KStr ''6''\<rparr>"

definition tier_int_key :: PriceEntry where
  "tier_int_key =
     \<lparr>product_id = codepoints ''P001'', min_qty = 1, price = 2, source = TIER, key = KInt 7\<rparr>"

definition tier_gold :: PriceEntry where
  "tier_gold =
     \<lparr>product_id = codepoints ''P001'', min_qty = 1, price = 3, source = TIER, key = KStr ''GOLD''\<rparr>"

definition example_engine :: PricingEngine where
  "example_engine =
     \<lparr>prices = [normal_12, normal_10_first, normal_10_second, customer_50,
                customer_str_key, tier_int_key, tier_gold],
      customer_tiers = [2 \<mapsto> ''GOLD''],
      customer_groups = Map.empty\<rparr>"

text \<open>
  A third rule set for one product, with one rule of each source and prices that rise with
  the precedence: \<^verbatim>\<open>NORMAL\<close> 10, \<^verbatim>\<open>GROUP\<close> 20, \<^verbatim>\<open>TIER\<close> 30, \<^verbatim>\<open>CUSTOMER\<close> 40. Customers
  6 and 2 have the tier and the group, customer 3 only the group, customer 4 neither.
\<close>

definition rank_normal :: PriceEntry where
  "rank_normal =
     \<lparr>product_id = codepoints ''P001'', min_qty = 1, price = 10, source = NORMAL, key = KNone\<rparr>"

definition rank_group :: PriceEntry where
  "rank_group =
     \<lparr>product_id = codepoints ''P001'', min_qty = 1, price = 20, source = GROUP,
      key = KStr ''GRP1''\<rparr>"

definition rank_tier :: PriceEntry where
  "rank_tier =
     \<lparr>product_id = codepoints ''P001'', min_qty = 1, price = 30, source = TIER,
      key = KStr ''GOLD''\<rparr>"

definition rank_customer :: PriceEntry where
  "rank_customer =
     \<lparr>product_id = codepoints ''P001'', min_qty = 1, price = 40, source = CUSTOMER,
      key = KInt 6\<rparr>"

definition rank_engine :: PricingEngine where
  "rank_engine =
     \<lparr>prices = [rank_normal, rank_group, rank_tier, rank_customer],
      customer_tiers = [6 \<mapsto> ''GOLD'', 2 \<mapsto> ''GOLD''],
      customer_groups = [6 \<mapsto> ''GRP1'', 2 \<mapsto> ''GRP1'', 3 \<mapsto> ''GRP1'']\<rparr>"

section \<open>Properties of the selection\<close>

text \<open>Python's \<^verbatim>\<open><\<close> on the key pairs is a strict linear order.\<close>

lemma tuple_lt_irrefl: "\<not> tuple_lt k k"
  by (cases k) simp

lemma tuple_lt_trans: "tuple_lt a b \<Longrightarrow> tuple_lt b c \<Longrightarrow> tuple_lt a c"
  by (cases a; cases b; cases c) (auto split: if_splits)

lemma tuple_lt_trans_not: "tuple_lt a b \<Longrightarrow> \<not> tuple_lt c b \<Longrightarrow> tuple_lt a c"
  by (cases a; cases b; cases c) (auto split: if_splits)

lemma not_tuple_lt_iff:
  "\<not> tuple_lt (min_key p) (min_key b) \<longleftrightarrow>
     PRIORITY (source b) < PRIORITY (source p)
     \<or> (PRIORITY (source b) = PRIORITY (source p) \<and> price b \<le> price p)"
  by (auto simp: min_key_def)

lemma py_min_from_split:
  "\<forall>p\<in>set ys. tuple_lt (min_key b) (min_key p) \<Longrightarrow>
   \<forall>p\<in>set zs. \<not> tuple_lt (min_key p) (min_key b) \<Longrightarrow>
   \<exists>ys' zs'. ys @ b # zs @ xs = ys' @ py_min_from b xs # zs'
      \<and> (\<forall>p\<in>set ys'. tuple_lt (min_key (py_min_from b xs)) (min_key p))
      \<and> (\<forall>p\<in>set zs'. \<not> tuple_lt (min_key p) (min_key (py_min_from b xs)))"
proof (induction xs arbitrary: b ys zs)
  case Nil
  then show ?case by auto
next
  case (Cons x xs)
  show ?case
  proof (cases "tuple_lt (min_key x) (min_key b)")
    case True
    have a: "\<forall>p\<in>set (ys @ b # zs). tuple_lt (min_key x) (min_key p)"
      using True Cons.prems by (auto intro: tuple_lt_trans tuple_lt_trans_not)
    have b: "\<forall>p\<in>set []. \<not> tuple_lt (min_key p) (min_key x)" by simp
    from Cons.IH [OF a b] show ?thesis using True by simp
  next
    case False
    have b: "\<forall>p\<in>set (zs @ [x]). \<not> tuple_lt (min_key p) (min_key b)"
      using False Cons.prems by auto
    from Cons.IH [OF Cons.prems(1) b] show ?thesis using False by simp
  qed
qed

lemma py_min_split:
  assumes "xs \<noteq> []"
  shows "\<exists>ys b zs. py_min xs = Some b \<and> xs = ys @ b # zs
      \<and> (\<forall>p\<in>set ys. tuple_lt (min_key b) (min_key p))
      \<and> (\<forall>p\<in>set zs. \<not> tuple_lt (min_key p) (min_key b))"
proof -
  from assms obtain x rest where xs: "xs = x # rest" by (cases xs) auto
  have "\<exists>ys' zs'. [] @ x # [] @ rest = ys' @ py_min_from x rest # zs'
      \<and> (\<forall>p\<in>set ys'. tuple_lt (min_key (py_min_from x rest)) (min_key p))
      \<and> (\<forall>p\<in>set zs'. \<not> tuple_lt (min_key p) (min_key (py_min_from x rest)))"
    by (rule py_min_from_split) simp_all
  then show ?thesis using xs by auto
qed

lemma filter_split:
  "filter P l = ys' @ b # zs' \<Longrightarrow>
   \<exists>ys zs. l = ys @ b # zs \<and> filter P ys = ys' \<and> filter P zs = zs' \<and> P b"
proof (induction l arbitrary: ys')
  case Nil
  then show ?case by simp
next
  case (Cons a l)
  show ?case
  proof (cases "P a")
    case False
    with Cons.prems have "filter P l = ys' @ b # zs'" by simp
    from Cons.IH [OF this] obtain ys zs where
      "l = ys @ b # zs" "filter P ys = ys'" "filter P zs = zs'" "P b" by blast
    with False have "a # l = (a # ys) @ b # zs \<and> filter P (a # ys) = ys'
        \<and> filter P zs = zs' \<and> P b" by simp
    then show ?thesis by blast
  next
    case True
    with Cons.prems have eq: "a # filter P l = ys' @ b # zs'" by simp
    show ?thesis
    proof (cases ys')
      case Nil
      with eq True have "a # l = [] @ b # l \<and> filter P [] = ys' \<and> filter P l = zs' \<and> P b"
        by simp
      then show ?thesis by blast
    next
      case (Cons y ys'')
      with eq have "filter P l = ys'' @ b # zs'" and ya: "y = a" by simp_all
      from Cons.IH [OF this(1)] obtain ys zs where
        "l = ys @ b # zs" "filter P ys = ys''" "filter P zs = zs'" "P b" by blast
      with True Cons ya have "a # l = (a # ys) @ b # zs \<and> filter P (a # ys) = ys'
        \<and> filter P zs = zs' \<and> P b" by simp
      then show ?thesis by blast
    qed
  qed
qed

section \<open>Properties of the engine\<close>

lemma get_best_price_found:
  assumes "0 < q" "normalize_product_code pid = Inr code"
    "py_min (applicable_entries eng code q cid) = Some b"
  shows "get_best_price eng pid q cid = Inr (result_of b)"
  using assms by (auto simp: get_best_price_def result_of_def Let_def)

lemma get_best_price_none:
  assumes "0 < q" "normalize_product_code pid = Inr code"
    "applicable_entries eng code q cid = []"
  shows "get_best_price eng pid q cid = Inl (PricingError (no_price_msg code q))"
  using assms by (simp add: get_best_price_def no_price_msg_def)

lemma applicable_entries_set:
  "p \<in> set (applicable_entries eng code q cid) \<longleftrightarrow>
     p \<in> set (prices eng)
     \<and> is_applicable code q cid (customer_tiers eng cid) (customer_groups eng cid) p"
  by (simp add: applicable_entries_def)

lemma PriceType_value_inj: "PriceType_value a = PriceType_value b \<longleftrightarrow> a = b"
  by (cases a; cases b) simp_all

lemma PRIORITY_CUSTOMER_le: "PRIORITY CUSTOMER \<le> PRIORITY s"
  by (cases s) simp_all

lemma best_selected:
  assumes "0 < q" "normalize_product_code pid = Inr code"
    "applicable_entries eng code q cid \<noteq> []"
  shows "\<exists>b \<in> set (applicable_entries eng code q cid).
      get_best_price eng pid q cid = Inr (result_of b)
      \<and> product_id b = code
      \<and> (\<forall>p \<in> set (applicable_entries eng code q cid). \<not> tuple_lt (min_key p) (min_key b))"
proof -
  from py_min_split [OF assms(3)] obtain ys b zs where
    m: "py_min (applicable_entries eng code q cid) = Some b"
    and sp: "applicable_entries eng code q cid = ys @ b # zs"
    and ys: "\<forall>p\<in>set ys. tuple_lt (min_key b) (min_key p)"
    and zs: "\<forall>p\<in>set zs. \<not> tuple_lt (min_key p) (min_key b)" by blast
  have mem: "b \<in> set (applicable_entries eng code q cid)" using sp by simp
  then have pc: "product_id b = code"
    by (simp add: applicable_entries_set is_applicable_def)
  have least: "\<forall>p \<in> set (applicable_entries eng code q cid). \<not> tuple_lt (min_key p) (min_key b)"
  proof
    fix p assume "p \<in> set (applicable_entries eng code q cid)"
    then have "p \<in> set ys \<or> p = b \<or> p \<in> set zs" using sp by auto
    then show "\<not> tuple_lt (min_key p) (min_key b)"
      using ys zs tuple_lt_irrefl tuple_lt_trans by blast
  qed
  from get_best_price_found [OF assms(1,2) m] mem pc least show ?thesis by blast
qed


lemma is_applicable_iff:
  "is_applicable code q cid (customer_tiers eng cid) (customer_groups eng cid) p \<longleftrightarrow>
     product_id p = code \<and> min_qty p \<le> q \<and> scope_applies eng cid p"
  by (cases "source p"; cases "key p")
     (auto simp: is_applicable_def scope_applies_def split: option.splits)

lemma get_best_price_cases:
  assumes "0 < q" "normalize_product_code pid = Inr code"
  shows "(applicable_entries eng code q cid = []
            \<and> get_best_price eng pid q cid = Inl (PricingError (no_price_msg code q)))
       \<or> (\<exists>b \<in> set (applicable_entries eng code q cid).
            get_best_price eng pid q cid = Inr (result_of b)
            \<and> product_id b = code
            \<and> (\<forall>p \<in> set (applicable_entries eng code q cid).
                  \<not> tuple_lt (min_key p) (min_key b)))"
  using get_best_price_none [OF assms] best_selected [OF assms] by blast

lemma no_price_msg_neq:
  "no_price_msg code q \<noteq> codepoints ''Quantity must be greater than zero.''"
  by (simp add: no_price_msg_def codepoints_def)

section \<open>Properties of the normaliser\<close>

lemma lt_10_cases:
  "d < 10 \<Longrightarrow> d = 0 \<or> d = 1 \<or> d = 2 \<or> d = 3 \<or> d = 4 \<or> d = 5 \<or> d = 6 \<or> d = 7 \<or> d = 8 \<or> d = (9::nat)"
  by arith

lemma digit_char_is_digit: "d < 10 \<Longrightarrow> is_decimal_char (digit_char d)"
  by (drule lt_10_cases) (auto simp: is_decimal_char_def digit_char_def)

lemma digit_val_digit_char: "d < 10 \<Longrightarrow> digit_val (digit_char d) = d"
  by (drule lt_10_cases) (auto simp: digit_val_def digit_char_def)

lemma digit_char_eq_0: "d < 10 \<Longrightarrow> digit_char d = CHR ''0'' \<Longrightarrow> d = 0"
  by (drule lt_10_cases) (auto simp: digit_char_def)

lemma digit_val_0: "digit_val (CHR ''0'') = 0"
  by (simp add: digit_val_def)

lemma str_nat_digits: "list_all is_decimal_char (str_nat n)"
proof (induction n rule: str_nat.induct)
  case (1 n)
  show ?case
  proof (cases "n < 10")
    case True
    then show ?thesis by (simp add: str_nat.simps [of n] digit_char_is_digit)
  next
    case False
    with "1" show ?thesis by (simp add: str_nat.simps [of n] digit_char_is_digit)
  qed
qed

lemma str_nat_nonempty: "str_nat n \<noteq> []"
  by (simp add: str_nat.simps [of n])

lemma str_nat_small: "n < 10 \<Longrightarrow> str_nat n = [digit_char n]"
  by (simp add: str_nat.simps [of n])

lemma hd_str_nat: "0 < n \<Longrightarrow> hd (str_nat n) \<noteq> CHR ''0''"
proof (induction n rule: str_nat.induct)
  case (1 n)
  show ?case
  proof (cases "n < 10")
    case True
    with "1.prems" show ?thesis using digit_char_eq_0 [of n] by (auto simp: str_nat_small)
  next
    case False
    then have "0 < n div 10" by simp
    with "1.IH" False have "hd (str_nat (n div 10)) \<noteq> CHR ''0''" by simp
    with False show ?thesis by (simp add: str_nat.simps [of n] str_nat_nonempty)
  qed
qed

lemma parse_str_nat: "foldl (\<lambda>acc c. 10 * acc + digit_val c) 0 (str_nat n) = n"
proof (induction n rule: str_nat.induct)
  case (1 n)
  show ?case
  proof (cases "n < 10")
    case True
    then show ?thesis by (simp add: str_nat_small digit_val_digit_char)
  next
    case False
    with "1" show ?thesis by (simp add: str_nat.simps [of n] digit_val_digit_char)
  qed
qed

lemma parse_zeros:
  "foldl (\<lambda>acc c. 10 * acc + digit_val c) 0 (replicate k (CHR ''0'') @ s)
     = foldl (\<lambda>acc c. 10 * acc + digit_val c) 0 s"
  by (induction k) (simp_all add: digit_val_0)

lemma format_03d_nonneg:
  "0 \<le> n \<Longrightarrow> format_03d n
     = replicate (3 - length (str_nat (nat n))) (CHR ''0'') @ str_nat (nat n)"
  by (simp add: format_03d_def Let_def)

lemma format_03d_nonneg_props:
  assumes "0 \<le> n"
  shows "list_all is_decimal_char (format_03d n)"
    and "int_of_str (format_03d n) = n"
    and "3 \<le> length (format_03d n)"
    and "3 < length (format_03d n) \<Longrightarrow> hd (format_03d n) \<noteq> CHR ''0''"
proof -
  note f = format_03d_nonneg [OF assms]
  show "list_all is_decimal_char (format_03d n)"
  proof -
    have "is_decimal_char (CHR ''0'')" by (simp add: is_decimal_char_def)
    then have "list_all is_decimal_char (replicate (3 - length (str_nat (nat n))) (CHR ''0''))"
      by (induction "3 - length (str_nat (nat n))") (simp_all add: list_all_iff)
    then show ?thesis by (simp add: f str_nat_digits)
  qed
  show "int_of_str (format_03d n) = n"
  proof -
    have "foldl (\<lambda>acc c. 10 * acc + digit_val c) 0 (format_03d n) = nat n"
      by (simp only: f parse_zeros parse_str_nat)
    with assms show ?thesis by (simp add: int_of_str_def)
  qed
  show "3 \<le> length (format_03d n)" by (simp add: f)
  assume l: "3 < length (format_03d n)"
  then have long: "3 < length (str_nat (nat n))" by (simp add: f)
  then have eq: "format_03d n = str_nat (nat n)" by (simp add: f)
  have "0 < nat n"
  proof (rule ccontr)
    assume "\<not> 0 < nat n"
    then have "str_nat (nat n) = [digit_char 0]" by (simp add: str_nat_small)
    with long show False by simp
  qed
  then show "hd (format_03d n) \<noteq> CHR ''0''" by (simp add: eq hd_str_nat)
qed

lemma of_char_eq_P: "of_char c = (80::nat) \<longleftrightarrow> c = CHR ''P''"
  using of_char_eq_iff [of c "CHR ''P''", where ?'a = nat] by simp

lemma of_char_eq_p: "of_char c = (112::nat) \<longleftrightarrow> c = CHR ''p''"
  using of_char_eq_iff [of c "CHR ''p''", where ?'a = nat] by simp

lemma upper_char_nonempty: "upper_char c \<noteq> []"
  by (simp add: upper_char_def Let_def)

lemma hd_upper_char_P:
  "hd (upper_char c) = 80 \<longleftrightarrow> c = CHR ''P'' \<or> c = CHR ''p''"
proof -
  have "hd (upper_char c) = 80 \<longleftrightarrow> of_char c = (80::nat) \<or> of_char c = (112::nat)"
    by (simp add: upper_char_def Let_def) arith
  then show ?thesis by (simp add: of_char_eq_P of_char_eq_p)
qed

lemma startswith_upper_P:
  "startswith (upper s) (codepoints ''P'') \<longleftrightarrow> starts_with_P_or_p s"
proof (cases s)
  case Nil
  then show ?thesis
    by (simp add: startswith_def upper_def codepoints_def starts_with_P_or_p_def)
next
  case (Cons c rest)
  obtain x xs where u: "upper_char c = x # xs"
    using upper_char_nonempty [of c] by (cases "upper_char c") auto
  then have "hd (upper_char c) = x" by simp
  with hd_upper_char_P [of c] have "x = 80 \<longleftrightarrow> c = CHR ''P'' \<or> c = CHR ''p''" by simp
  with Cons u show ?thesis
    by (simp add: startswith_def upper_def codepoints_def starts_with_P_or_p_def)
qed

lemma decimal_not_P: "s \<noteq> [] \<Longrightarrow> list_all is_decimal_char s \<Longrightarrow> \<not> starts_with_P_or_p s"
  by (cases s) (auto simp: starts_with_P_or_p_def is_decimal_char_def)

lemma decimal_isdigit: "s \<noteq> [] \<Longrightarrow> list_all is_decimal_char s \<Longrightarrow> isdigit s"
  by (simp add: isdigit_def isdigit_char_def list_all_iff)


lemma format_03d_neg: "n < 0 \<Longrightarrow> \<exists>rest. format_03d n = CHR ''-'' # rest"
  by (simp add: format_03d_def Let_def)

lemma canonical_code_not_negative:
  assumes "n < 0"
  shows "\<not> canonical_code (codepoints (''P'' @ format_03d n))"
proof -
  from format_03d_neg [OF assms] obtain rest where "format_03d n = CHR ''-'' # rest" by blast
  then show ?thesis by (simp add: canonical_code_def codepoints_def)
qed

text \<open>
  The whole of \<^verbatim>\<open>str.upper\<close> and \<^verbatim>\<open>str.isdigit\<close> below 256, character by character: the
  images of the characters that \<^verbatim>\<open>str.upper\<close> changes, the characters it keeps, and the
  characters that \<^verbatim>\<open>str.isdigit\<close> accepts and rejects.
\<close>

lemma upper_char_ascii_letters:
  "map upper_char
     [CHR 0x61, CHR 0x62, CHR 0x63, CHR 0x64, CHR 0x65, CHR 0x66,
      CHR 0x67, CHR 0x68, CHR 0x69, CHR 0x6A, CHR 0x6B, CHR 0x6C, CHR 0x6D, CHR 0x6E,
      CHR 0x6F, CHR 0x70, CHR 0x71, CHR 0x72, CHR 0x73, CHR 0x74, CHR 0x75, CHR 0x76,
      CHR 0x77, CHR 0x78, CHR 0x79, CHR 0x7A] =
     [[65], [66], [67], [68], [69], [70], [71], [72], [73], [74], [75], [76], [77], [78],
      [79], [80], [81], [82], [83], [84], [85], [86], [87], [88], [89], [90]]"
  by code_simp

lemma upper_char_latin1_letters:
  "map upper_char
     [CHR 0xB5, CHR 0xDF, CHR 0xE0, CHR 0xE1, CHR 0xE2, CHR 0xE3,
      CHR 0xE4, CHR 0xE5, CHR 0xE6, CHR 0xE7, CHR 0xE8, CHR 0xE9, CHR 0xEA, CHR 0xEB,
      CHR 0xEC, CHR 0xED, CHR 0xEE, CHR 0xEF, CHR 0xF0, CHR 0xF1, CHR 0xF2, CHR 0xF3,
      CHR 0xF4, CHR 0xF5, CHR 0xF6, CHR 0xF8, CHR 0xF9, CHR 0xFA, CHR 0xFB, CHR 0xFC,
      CHR 0xFD, CHR 0xFE, CHR 0xFF] =
     [[924], [83, 83], [192], [193], [194], [195], [196], [197], [198], [199], [200],
      [201], [202], [203], [204], [205], [206], [207], [208], [209], [210], [211], [212],
      [213], [214], [216], [217], [218], [219], [220], [221], [222], [376]]"
  by code_simp

lemma upper_char_kept_1:
  "list_all (\<lambda>c. upper_char c = [of_char c])
     [CHR 0x00, CHR 0x01, CHR 0x02,
      CHR 0x03, CHR 0x04, CHR 0x05, CHR 0x06, CHR 0x07, CHR 0x08, CHR 0x09, CHR 0x0A,
      CHR 0x0B, CHR 0x0C, CHR 0x0D, CHR 0x0E, CHR 0x0F, CHR 0x10, CHR 0x11, CHR 0x12,
      CHR 0x13, CHR 0x14, CHR 0x15, CHR 0x16, CHR 0x17, CHR 0x18, CHR 0x19, CHR 0x1A,
      CHR 0x1B, CHR 0x1C, CHR 0x1D, CHR 0x1E, CHR 0x1F, CHR 0x20, CHR 0x21, CHR 0x22,
      CHR 0x23, CHR 0x24, CHR 0x25, CHR 0x26, CHR 0x27, CHR 0x28, CHR 0x29, CHR 0x2A,
      CHR 0x2B, CHR 0x2C, CHR 0x2D, CHR 0x2E, CHR 0x2F, CHR 0x30, CHR 0x31]"
  by code_simp

lemma upper_char_kept_2:
  "list_all (\<lambda>c. upper_char c = [of_char c])
     [CHR 0x32, CHR 0x33, CHR 0x34,
      CHR 0x35, CHR 0x36, CHR 0x37, CHR 0x38, CHR 0x39, CHR 0x3A, CHR 0x3B, CHR 0x3C,
      CHR 0x3D, CHR 0x3E, CHR 0x3F, CHR 0x40, CHR 0x41, CHR 0x42, CHR 0x43, CHR 0x44,
      CHR 0x45, CHR 0x46, CHR 0x47, CHR 0x48, CHR 0x49, CHR 0x4A, CHR 0x4B, CHR 0x4C,
      CHR 0x4D, CHR 0x4E, CHR 0x4F, CHR 0x50, CHR 0x51, CHR 0x52, CHR 0x53, CHR 0x54,
      CHR 0x55, CHR 0x56, CHR 0x57, CHR 0x58, CHR 0x59, CHR 0x5A, CHR 0x5B, CHR 0x5C,
      CHR 0x5D, CHR 0x5E, CHR 0x5F, CHR 0x60, CHR 0x7B, CHR 0x7C, CHR 0x7D]"
  by code_simp

lemma upper_char_kept_3:
  "list_all (\<lambda>c. upper_char c = [of_char c])
     [CHR 0x7E, CHR 0x7F, CHR 0x80,
      CHR 0x81, CHR 0x82, CHR 0x83, CHR 0x84, CHR 0x85, CHR 0x86, CHR 0x87, CHR 0x88,
      CHR 0x89, CHR 0x8A, CHR 0x8B, CHR 0x8C, CHR 0x8D, CHR 0x8E, CHR 0x8F, CHR 0x90,
      CHR 0x91, CHR 0x92, CHR 0x93, CHR 0x94, CHR 0x95, CHR 0x96, CHR 0x97, CHR 0x98,
      CHR 0x99, CHR 0x9A, CHR 0x9B, CHR 0x9C, CHR 0x9D, CHR 0x9E, CHR 0x9F, CHR 0xA0,
      CHR 0xA1, CHR 0xA2, CHR 0xA3, CHR 0xA4, CHR 0xA5, CHR 0xA6, CHR 0xA7, CHR 0xA8,
      CHR 0xA9, CHR 0xAA, CHR 0xAB, CHR 0xAC, CHR 0xAD, CHR 0xAE, CHR 0xAF]"
  by code_simp

lemma upper_char_kept_4:
  "list_all (\<lambda>c. upper_char c = [of_char c])
     [CHR 0xB0, CHR 0xB1, CHR 0xB2,
      CHR 0xB3, CHR 0xB4, CHR 0xB6, CHR 0xB7, CHR 0xB8, CHR 0xB9, CHR 0xBA, CHR 0xBB,
      CHR 0xBC, CHR 0xBD, CHR 0xBE, CHR 0xBF, CHR 0xC0, CHR 0xC1, CHR 0xC2, CHR 0xC3,
      CHR 0xC4, CHR 0xC5, CHR 0xC6, CHR 0xC7, CHR 0xC8, CHR 0xC9, CHR 0xCA, CHR 0xCB,
      CHR 0xCC, CHR 0xCD, CHR 0xCE, CHR 0xCF, CHR 0xD0, CHR 0xD1, CHR 0xD2, CHR 0xD3,
      CHR 0xD4, CHR 0xD5, CHR 0xD6, CHR 0xD7, CHR 0xD8, CHR 0xD9, CHR 0xDA, CHR 0xDB,
      CHR 0xDC, CHR 0xDD, CHR 0xDE, CHR 0xF7]"
  by code_simp

lemma isdigit_char_accepted:
  "list_all isdigit_char
     [CHR 0x30, CHR 0x31, CHR 0x32, CHR 0x33, CHR 0x34, CHR 0x35,
      CHR 0x36, CHR 0x37, CHR 0x38, CHR 0x39, CHR 0xB2, CHR 0xB3, CHR 0xB9]"
  by code_simp

lemma isdigit_char_rejected_1:
  "list_all (\<lambda>c. \<not> isdigit_char c)
     [CHR 0x00, CHR 0x01, CHR 0x02,
      CHR 0x03, CHR 0x04, CHR 0x05, CHR 0x06, CHR 0x07, CHR 0x08, CHR 0x09, CHR 0x0A,
      CHR 0x0B, CHR 0x0C, CHR 0x0D, CHR 0x0E, CHR 0x0F, CHR 0x10, CHR 0x11, CHR 0x12,
      CHR 0x13, CHR 0x14, CHR 0x15, CHR 0x16, CHR 0x17, CHR 0x18, CHR 0x19, CHR 0x1A,
      CHR 0x1B, CHR 0x1C, CHR 0x1D, CHR 0x1E, CHR 0x1F, CHR 0x20, CHR 0x21, CHR 0x22,
      CHR 0x23, CHR 0x24, CHR 0x25, CHR 0x26, CHR 0x27, CHR 0x28, CHR 0x29, CHR 0x2A,
      CHR 0x2B, CHR 0x2C, CHR 0x2D, CHR 0x2E, CHR 0x2F, CHR 0x3A, CHR 0x3B, CHR 0x3C,
      CHR 0x3D, CHR 0x3E, CHR 0x3F, CHR 0x40, CHR 0x41, CHR 0x42, CHR 0x43, CHR 0x44,
      CHR 0x45, CHR 0x46]"
  by code_simp

lemma isdigit_char_rejected_2:
  "list_all (\<lambda>c. \<not> isdigit_char c)
     [CHR 0x47, CHR 0x48, CHR 0x49,
      CHR 0x4A, CHR 0x4B, CHR 0x4C, CHR 0x4D, CHR 0x4E, CHR 0x4F, CHR 0x50, CHR 0x51,
      CHR 0x52, CHR 0x53, CHR 0x54, CHR 0x55, CHR 0x56, CHR 0x57, CHR 0x58, CHR 0x59,
      CHR 0x5A, CHR 0x5B, CHR 0x5C, CHR 0x5D, CHR 0x5E, CHR 0x5F, CHR 0x60, CHR 0x61,
      CHR 0x62, CHR 0x63, CHR 0x64, CHR 0x65, CHR 0x66, CHR 0x67, CHR 0x68, CHR 0x69,
      CHR 0x6A, CHR 0x6B, CHR 0x6C, CHR 0x6D, CHR 0x6E, CHR 0x6F, CHR 0x70, CHR 0x71,
      CHR 0x72, CHR 0x73, CHR 0x74, CHR 0x75, CHR 0x76, CHR 0x77, CHR 0x78, CHR 0x79,
      CHR 0x7A, CHR 0x7B, CHR 0x7C, CHR 0x7D, CHR 0x7E, CHR 0x7F, CHR 0x80, CHR 0x81,
      CHR 0x82, CHR 0x83]"
  by code_simp

lemma isdigit_char_rejected_3:
  "list_all (\<lambda>c. \<not> isdigit_char c)
     [CHR 0x84, CHR 0x85, CHR 0x86,
      CHR 0x87, CHR 0x88, CHR 0x89, CHR 0x8A, CHR 0x8B, CHR 0x8C, CHR 0x8D, CHR 0x8E,
      CHR 0x8F, CHR 0x90, CHR 0x91, CHR 0x92, CHR 0x93, CHR 0x94, CHR 0x95, CHR 0x96,
      CHR 0x97, CHR 0x98, CHR 0x99, CHR 0x9A, CHR 0x9B, CHR 0x9C, CHR 0x9D, CHR 0x9E,
      CHR 0x9F, CHR 0xA0, CHR 0xA1, CHR 0xA2, CHR 0xA3, CHR 0xA4, CHR 0xA5, CHR 0xA6,
      CHR 0xA7, CHR 0xA8, CHR 0xA9, CHR 0xAA, CHR 0xAB, CHR 0xAC, CHR 0xAD, CHR 0xAE,
      CHR 0xAF, CHR 0xB0, CHR 0xB1, CHR 0xB4, CHR 0xB5, CHR 0xB6, CHR 0xB7, CHR 0xB8,
      CHR 0xBA, CHR 0xBB, CHR 0xBC, CHR 0xBD, CHR 0xBE, CHR 0xBF, CHR 0xC0, CHR 0xC1,
      CHR 0xC2, CHR 0xC3]"
  by code_simp

lemma isdigit_char_rejected_4:
  "list_all (\<lambda>c. \<not> isdigit_char c)
     [CHR 0xC4, CHR 0xC5, CHR 0xC6,
      CHR 0xC7, CHR 0xC8, CHR 0xC9, CHR 0xCA, CHR 0xCB, CHR 0xCC, CHR 0xCD, CHR 0xCE,
      CHR 0xCF, CHR 0xD0, CHR 0xD1, CHR 0xD2, CHR 0xD3, CHR 0xD4, CHR 0xD5, CHR 0xD6,
      CHR 0xD7, CHR 0xD8, CHR 0xD9, CHR 0xDA, CHR 0xDB, CHR 0xDC, CHR 0xDD, CHR 0xDE,
      CHR 0xDF, CHR 0xE0, CHR 0xE1, CHR 0xE2, CHR 0xE3, CHR 0xE4, CHR 0xE5, CHR 0xE6,
      CHR 0xE7, CHR 0xE8, CHR 0xE9, CHR 0xEA, CHR 0xEB, CHR 0xEC, CHR 0xED, CHR 0xEE,
      CHR 0xEF, CHR 0xF0, CHR 0xF1, CHR 0xF2, CHR 0xF3, CHR 0xF4, CHR 0xF5, CHR 0xF6,
      CHR 0xF7, CHR 0xF8, CHR 0xF9, CHR 0xFA, CHR 0xFB, CHR 0xFC, CHR 0xFD, CHR 0xFE,
      CHR 0xFF]"
  by code_simp

text \<open>
  The last branch of the normaliser: a string that does not begin with \<^verbatim>\<open>P\<close> or \<^verbatim>\<open>p\<close> and
  that \<^verbatim>\<open>isdigit\<close> rejects (the empty string included) raises \<^verbatim>\<open>PricingError\<close> with the
  string in the message, and \<^verbatim>\<open>get_best_price\<close> with a positive quantity passes the error
  on.
\<close>

lemma invalid_product_identifier_raised:
  assumes "\<not> starts_with_P_or_p s" and "\<not> isdigit s"
  shows "normalize_product_code (PStr s)
           = Inl (PricingError (codepoints ''Invalid product_id: '' @ codepoints s))
       \<and> (0 < q \<longrightarrow>
            get_best_price eng (PStr s) q cid
              = Inl (PricingError (codepoints ''Invalid product_id: '' @ codepoints s)))"
proof -
  have "normalize_product_code (PStr s)
      = Inl (PricingError (codepoints ''Invalid product_id: '' @ codepoints s))"
    using assms by (simp add: normalize_product_code_def startswith_upper_P)
  then show ?thesis by (simp add: get_best_price_def)
qed

section \<open>Claims about price resolution\<close>

text \<open>
  C1. Precedence of the source over the price. The priority table is \<^verbatim>\<open>CUSTOMER\<close> 1,
  \<^verbatim>\<open>TIER\<close> 2, \<^verbatim>\<open>GROUP\<close> 3, \<^verbatim>\<open>NORMAL\<close> 4. Take a positive quantity and a product
  identifier that normalises to \<open>code\<close>. Whenever some rule is applicable, the result is
  built from an applicable rule \<open>b\<close> that is least for the pair (priority of the source,
  price): against every applicable rule \<open>p\<close>, the source of \<open>b\<close> comes first in the order
  \<^verbatim>\<open>CUSTOMER\<close>, \<^verbatim>\<open>TIER\<close>, \<^verbatim>\<open>GROUP\<close>, \<^verbatim>\<open>NORMAL\<close> or is the source of \<open>p\<close>, whatever the
  two prices are, and the price decides only between rules of one source. In particular,
  when a \<^verbatim>\<open>CUSTOMER\<close> rule \<open>c\<close> and a \<^verbatim>\<open>NORMAL\<close> rule \<open>n\<close> are both applicable, the result
  carries the tag \<^verbatim>\<open>CUSTOMER\<close> and the price of an applicable \<^verbatim>\<open>CUSTOMER\<close> rule (the price
  of \<open>c\<close> or of a cheaper \<^verbatim>\<open>CUSTOMER\<close> rule), whatever the price of \<open>n\<close> is.
\<close>

theorem customer_precedence:
  assumes "0 < q" and "normalize_product_code pid = Inr code"
  shows "PRIORITY CUSTOMER = 1 \<and> PRIORITY TIER = 2 \<and> PRIORITY GROUP = 3 \<and> PRIORITY NORMAL = 4
       \<and> (applicable_entries eng code q cid \<noteq> [] \<longrightarrow>
          (\<exists>b \<in> set (applicable_entries eng code q cid).
             get_best_price eng pid q cid =
               Inr \<lparr>res_product_id = code, res_price = price b,
                    res_price_type = PriceType_value (source b)\<rparr>
             \<and> (\<forall>p \<in> set (applicable_entries eng code q cid).
                   (PRIORITY (source b) < PRIORITY (source p)
                    \<or> (PRIORITY (source b) = PRIORITY (source p) \<and> price b \<le> price p))
                   \<and> (source b = CUSTOMER
                      \<or> (source b = TIER \<and> source p \<noteq> CUSTOMER)
                      \<or> (source b = GROUP \<and> source p \<noteq> CUSTOMER \<and> source p \<noteq> TIER)
                      \<or> (source b = NORMAL \<and> source p = NORMAL))
                   \<and> (source p = source b \<longrightarrow> price b \<le> price p))))
       \<and> (c \<in> set (applicable_entries eng code q cid) \<and> source c = CUSTOMER
            \<and> n \<in> set (applicable_entries eng code q cid) \<and> source n = NORMAL \<longrightarrow>
          (\<exists>b \<in> set (applicable_entries eng code q cid).
             source b = CUSTOMER \<and> price b \<le> price c
             \<and> get_best_price eng pid q cid =
               Inr \<lparr>res_product_id = code, res_price = price b, res_price_type = ''CUSTOMER''\<rparr>))"
proof -
  have table: "PRIORITY CUSTOMER = 1 \<and> PRIORITY TIER = 2 \<and> PRIORITY GROUP = 3
      \<and> PRIORITY NORMAL = 4" by simp
  have general: "applicable_entries eng code q cid \<noteq> [] \<longrightarrow>
          (\<exists>b \<in> set (applicable_entries eng code q cid).
             get_best_price eng pid q cid =
               Inr \<lparr>res_product_id = code, res_price = price b,
                    res_price_type = PriceType_value (source b)\<rparr>
             \<and> (\<forall>p \<in> set (applicable_entries eng code q cid).
                   (PRIORITY (source b) < PRIORITY (source p)
                    \<or> (PRIORITY (source b) = PRIORITY (source p) \<and> price b \<le> price p))
                   \<and> (source b = CUSTOMER
                      \<or> (source b = TIER \<and> source p \<noteq> CUSTOMER)
                      \<or> (source b = GROUP \<and> source p \<noteq> CUSTOMER \<and> source p \<noteq> TIER)
                      \<or> (source b = NORMAL \<and> source p = NORMAL))
                   \<and> (source p = source b \<longrightarrow> price b \<le> price p)))"
  proof
    assume ne: "applicable_entries eng code q cid \<noteq> []"
    from best_selected [OF assms ne] obtain b where
      b: "b \<in> set (applicable_entries eng code q cid)"
      "get_best_price eng pid q cid = Inr (result_of b)" "product_id b = code"
      "\<forall>p \<in> set (applicable_entries eng code q cid). \<not> tuple_lt (min_key p) (min_key b)"
      by blast
    have "\<forall>p \<in> set (applicable_entries eng code q cid).
            (PRIORITY (source b) < PRIORITY (source p)
             \<or> (PRIORITY (source b) = PRIORITY (source p) \<and> price b \<le> price p))
            \<and> (source b = CUSTOMER
               \<or> (source b = TIER \<and> source p \<noteq> CUSTOMER)
               \<or> (source b = GROUP \<and> source p \<noteq> CUSTOMER \<and> source p \<noteq> TIER)
               \<or> (source b = NORMAL \<and> source p = NORMAL))
            \<and> (source p = source b \<longrightarrow> price b \<le> price p)"
    proof
      fix p assume "p \<in> set (applicable_entries eng code q cid)"
      with b(4) have le: "PRIORITY (source b) < PRIORITY (source p)
          \<or> (PRIORITY (source b) = PRIORITY (source p) \<and> price b \<le> price p)"
        by (simp add: not_tuple_lt_iff)
      then have "source b = CUSTOMER
               \<or> (source b = TIER \<and> source p \<noteq> CUSTOMER)
               \<or> (source b = GROUP \<and> source p \<noteq> CUSTOMER \<and> source p \<noteq> TIER)
               \<or> (source b = NORMAL \<and> source p = NORMAL)"
        by (cases "source b"; cases "source p") simp_all
      moreover from le have "source p = source b \<longrightarrow> price b \<le> price p" by auto
      ultimately show "(PRIORITY (source b) < PRIORITY (source p)
             \<or> (PRIORITY (source b) = PRIORITY (source p) \<and> price b \<le> price p))
            \<and> (source b = CUSTOMER
               \<or> (source b = TIER \<and> source p \<noteq> CUSTOMER)
               \<or> (source b = GROUP \<and> source p \<noteq> CUSTOMER \<and> source p \<noteq> TIER)
               \<or> (source b = NORMAL \<and> source p = NORMAL))
            \<and> (source p = source b \<longrightarrow> price b \<le> price p)"
        using le by blast
    qed
    with b(1,2,3) show "\<exists>b \<in> set (applicable_entries eng code q cid).
             get_best_price eng pid q cid =
               Inr \<lparr>res_product_id = code, res_price = price b,
                    res_price_type = PriceType_value (source b)\<rparr>
             \<and> (\<forall>p \<in> set (applicable_entries eng code q cid).
                   (PRIORITY (source b) < PRIORITY (source p)
                    \<or> (PRIORITY (source b) = PRIORITY (source p) \<and> price b \<le> price p))
                   \<and> (source b = CUSTOMER
                      \<or> (source b = TIER \<and> source p \<noteq> CUSTOMER)
                      \<or> (source b = GROUP \<and> source p \<noteq> CUSTOMER \<and> source p \<noteq> TIER)
                      \<or> (source b = NORMAL \<and> source p = NORMAL))
                   \<and> (source p = source b \<longrightarrow> price b \<le> price p))"
      by (auto simp: result_of_def)
  qed
  have special: "c \<in> set (applicable_entries eng code q cid) \<and> source c = CUSTOMER
            \<and> n \<in> set (applicable_entries eng code q cid) \<and> source n = NORMAL \<longrightarrow>
          (\<exists>b \<in> set (applicable_entries eng code q cid).
             source b = CUSTOMER \<and> price b \<le> price c
             \<and> get_best_price eng pid q cid =
               Inr \<lparr>res_product_id = code, res_price = price b, res_price_type = ''CUSTOMER''\<rparr>)"
  proof
    assume a: "c \<in> set (applicable_entries eng code q cid) \<and> source c = CUSTOMER
            \<and> n \<in> set (applicable_entries eng code q cid) \<and> source n = NORMAL"
    then have ne: "applicable_entries eng code q cid \<noteq> []" by auto
    from best_selected [OF assms ne] obtain b where
      b: "b \<in> set (applicable_entries eng code q cid)"
      "get_best_price eng pid q cid = Inr (result_of b)" "product_id b = code"
      "\<forall>p \<in> set (applicable_entries eng code q cid). \<not> tuple_lt (min_key p) (min_key b)"
      by blast
    from b(4) a have nc: "\<not> tuple_lt (min_key c) (min_key b)" by blast
    have src: "source b = CUSTOMER"
      using nc a PRIORITY_CUSTOMER_le [of "source b"]
      by (cases "source b") (auto simp: not_tuple_lt_iff)
    with nc a have "price b \<le> price c" by (auto simp: not_tuple_lt_iff)
    with b src show "\<exists>b \<in> set (applicable_entries eng code q cid).
             source b = CUSTOMER \<and> price b \<le> price c
             \<and> get_best_price eng pid q cid =
               Inr \<lparr>res_product_id = code, res_price = price b, res_price_type = ''CUSTOMER''\<rparr>"
      by (auto simp: result_of_def)
  qed
  from table general special show ?thesis by blast
qed

text \<open>
  The rule set with one rule of each source, dearer the higher its precedence. Customer 6
  gets the \<^verbatim>\<open>CUSTOMER\<close> price 40 although the \<^verbatim>\<open>NORMAL\<close> price is 10; customer 2, with tier
  and group, the \<^verbatim>\<open>TIER\<close> price 30; customer 3, with the group only, the \<^verbatim>\<open>GROUP\<close> price
  20; customer 4 the \<^verbatim>\<open>NORMAL\<close> price 10. In the engine of the tests the tier price 95 wins
  over the normal price 100.
\<close>

theorem customer_precedence_witness:
  "0 < (1::int) \<and> normalize_product_code (PInt 1) = Inr (codepoints ''P001'')
   \<and> applicable_entries rank_engine (codepoints ''P001'') 1 6
       = [rank_normal, rank_group, rank_tier, rank_customer]
   \<and> source rank_customer = CUSTOMER \<and> source rank_normal = NORMAL
   \<and> price rank_normal < price rank_customer
   \<and> get_best_price rank_engine (PInt 1) 1 6 =
       Inr \<lparr>res_product_id = codepoints ''P001'', res_price = 40, res_price_type = ''CUSTOMER''\<rparr>
   \<and> get_best_price rank_engine (PInt 1) 1 2 =
       Inr \<lparr>res_product_id = codepoints ''P001'', res_price = 30, res_price_type = ''TIER''\<rparr>
   \<and> get_best_price rank_engine (PInt 1) 1 3 =
       Inr \<lparr>res_product_id = codepoints ''P001'', res_price = 20, res_price_type = ''GROUP''\<rparr>
   \<and> get_best_price rank_engine (PInt 1) 1 4 =
       Inr \<lparr>res_product_id = codepoints ''P001'', res_price = 10, res_price_type = ''NORMAL''\<rparr>
   \<and> get_best_price test_engine (PInt 1) 4 2 =
       Inr \<lparr>res_product_id = codepoints ''P001'', res_price = 95, res_price_type = ''TIER''\<rparr>"
proof -
  have h1: "0 < (1::int)" by simp
  have h2: "normalize_product_code (PInt 1) = Inr (codepoints ''P001'')" by code_simp
  have ap: "applicable_entries rank_engine (codepoints ''P001'') 1 6
      = [rank_normal, rank_group, rank_tier, rank_customer]" by code_simp
  have src: "source rank_customer = CUSTOMER" "source rank_normal = NORMAL"
    "source rank_group = GROUP" "source rank_tier = TIER"
    "price rank_normal < price rank_customer" "price rank_customer = 40"
    by (simp_all add: rank_customer_def rank_normal_def rank_group_def rank_tier_def)
  have "rank_customer \<in> set (applicable_entries rank_engine (codepoints ''P001'') 1 6)
      \<and> source rank_customer = CUSTOMER
      \<and> rank_normal \<in> set (applicable_entries rank_engine (codepoints ''P001'') 1 6)
      \<and> source rank_normal = NORMAL"
    using ap src by simp
  with customer_precedence [OF h1 h2, where eng = rank_engine and cid = 6
      and c = rank_customer and n = rank_normal]
  obtain b where b: "b \<in> set (applicable_entries rank_engine (codepoints ''P001'') 1 6)"
    "source b = CUSTOMER"
    "get_best_price rank_engine (PInt 1) 1 6 =
       Inr \<lparr>res_product_id = codepoints ''P001'', res_price = price b,
            res_price_type = ''CUSTOMER''\<rparr>"
    by blast
  from b(1,2) ap src have "b = rank_customer" by auto
  with b(3) src have r6: "get_best_price rank_engine (PInt 1) 1 6 =
       Inr \<lparr>res_product_id = codepoints ''P001'', res_price = 40, res_price_type = ''CUSTOMER''\<rparr>"
    by simp
  have r2: "get_best_price rank_engine (PInt 1) 1 2 =
       Inr \<lparr>res_product_id = codepoints ''P001'', res_price = 30, res_price_type = ''TIER''\<rparr>"
    by code_simp
  have r3: "get_best_price rank_engine (PInt 1) 1 3 =
       Inr \<lparr>res_product_id = codepoints ''P001'', res_price = 20, res_price_type = ''GROUP''\<rparr>"
    by code_simp
  have r4: "get_best_price rank_engine (PInt 1) 1 4 =
       Inr \<lparr>res_product_id = codepoints ''P001'', res_price = 10, res_price_type = ''NORMAL''\<rparr>"
    by code_simp
  have rt: "get_best_price test_engine (PInt 1) 4 2 =
       Inr \<lparr>res_product_id = codepoints ''P001'', res_price = 95, res_price_type = ''TIER''\<rparr>"
    by code_simp
  from h1 h2 ap src(1,2,5) r6 r2 r3 r4 rt show ?thesis by simp
qed

text \<open>
  C2. Tie-break within a source. Whenever a price is returned, it is the price of an
  applicable rule of the returned source, and no applicable rule of that source has a
  lower price.
\<close>

theorem lowest_price_within_source:
  assumes "0 < q" and "normalize_product_code pid = Inr code"
    and "get_best_price eng pid q cid = Inr r"
  shows "(\<exists>b \<in> set (applicable_entries eng code q cid).
            PriceType_value (source b) = res_price_type r \<and> price b = res_price r)
       \<and> (\<forall>p \<in> set (applicable_entries eng code q cid).
            PriceType_value (source p) = res_price_type r \<longrightarrow> res_price r \<le> price p)"
proof -
  from get_best_price_cases [OF assms(1,2), of eng cid] assms(3) obtain b where
    b: "b \<in> set (applicable_entries eng code q cid)" "r = result_of b"
    "\<forall>p \<in> set (applicable_entries eng code q cid). \<not> tuple_lt (min_key p) (min_key b)"
    by auto
  have "\<forall>p \<in> set (applicable_entries eng code q cid).
            PriceType_value (source p) = res_price_type r \<longrightarrow> res_price r \<le> price p"
  proof (intro ballI impI)
    fix p assume p: "p \<in> set (applicable_entries eng code q cid)"
      and "PriceType_value (source p) = res_price_type r"
    then have "source p = source b" using b(2) by (simp add: result_of_def PriceType_value_inj)
    moreover from b(3) p have "\<not> tuple_lt (min_key p) (min_key b)" by blast
    ultimately show "res_price r \<le> price p" using b(2)
      by (simp add: not_tuple_lt_iff result_of_def)
  qed
  moreover have "PriceType_value (source b) = res_price_type r \<and> price b = res_price r"
    using b(2) by (simp add: result_of_def)
  ultimately show ?thesis using b(1) by blast
qed

text \<open>
  The example engine at customer 9: three \<^verbatim>\<open>NORMAL\<close> rules at 12, 10 and 10 apply and
  the result is 10.
\<close>

theorem lowest_price_within_source_witness:
  "0 < (5::int) \<and> normalize_product_code (PInt 1) = Inr (codepoints ''P001'')
   \<and> get_best_price example_engine (PInt 1) 5 9 =
       Inr \<lparr>res_product_id = (codepoints ''P001''), res_price = 10, res_price_type = ''NORMAL''\<rparr>
   \<and> applicable_entries example_engine (codepoints ''P001'') 5 9
       = [normal_12, normal_10_first, normal_10_second]
   \<and> PriceType_value (source normal_12) = ''NORMAL'' \<and> 10 \<le> price normal_12
   \<and> PriceType_value (source normal_10_first) = ''NORMAL'' \<and> 10 \<le> price normal_10_first
   \<and> PriceType_value (source normal_10_second) = ''NORMAL'' \<and> 10 \<le> price normal_10_second"
proof -
  have h1: "0 < (5::int)" by simp
  have h2: "normalize_product_code (PInt 1) = Inr (codepoints ''P001'')" by code_simp
  have h3: "get_best_price example_engine (PInt 1) 5 9 =
       Inr \<lparr>res_product_id = (codepoints ''P001''), res_price = 10, res_price_type = ''NORMAL''\<rparr>"
    by code_simp
  have ap: "applicable_entries example_engine (codepoints ''P001'') 5 9
       = [normal_12, normal_10_first, normal_10_second]" by code_simp
  have src: "PriceType_value (source normal_12) = ''NORMAL''"
    "PriceType_value (source normal_10_first) = ''NORMAL''"
    "PriceType_value (source normal_10_second) = ''NORMAL''"
    by (simp_all add: normal_12_def normal_10_first_def normal_10_second_def)
  from lowest_price_within_source [OF h1 h2 h3]
  have "\<forall>p \<in> set [normal_12, normal_10_first, normal_10_second].
         PriceType_value (source p) = ''NORMAL'' \<longrightarrow> 10 \<le> price p"
    by (simp add: ap)
  with src have "10 \<le> price normal_12 \<and> 10 \<le> price normal_10_first
      \<and> 10 \<le> price normal_10_second" by simp
  with h1 h2 h3 ap src show ?thesis by simp
qed

text \<open>
  C9. The earliest minimal rule is selected. Whenever some rule is applicable, the rule
  sequence of the engine splits as \<open>ys @ b # zs\<close> where \<open>b\<close> is the applicable rule that
  \<^verbatim>\<open>min\<close> selects and from which the result is built, every applicable rule before \<open>b\<close>
  has a strictly larger pair (priority, price), and no applicable rule after \<open>b\<close> has a
  smaller one. So among the applicable rules with the least pair, the first in the
  construction order is the one selected.
\<close>

theorem earliest_minimal_entry_selected:
  assumes "0 < q" and "normalize_product_code pid = Inr code"
    and "applicable_entries eng code q cid \<noteq> []"
  shows "\<exists>ys b zs. prices eng = ys @ b # zs
      \<and> is_applicable code q cid (customer_tiers eng cid) (customer_groups eng cid) b
      \<and> py_min (applicable_entries eng code q cid) = Some b
      \<and> get_best_price eng pid q cid =
          Inr \<lparr>res_product_id = product_id b, res_price = price b,
               res_price_type = PriceType_value (source b)\<rparr>
      \<and> (\<forall>p \<in> set ys.
            is_applicable code q cid (customer_tiers eng cid) (customer_groups eng cid) p
            \<longrightarrow> tuple_lt (min_key b) (min_key p))
      \<and> (\<forall>p \<in> set zs.
            is_applicable code q cid (customer_tiers eng cid) (customer_groups eng cid) p
            \<longrightarrow> \<not> tuple_lt (min_key p) (min_key b))"
proof -
  let ?P = "is_applicable code q cid (customer_tiers eng cid) (customer_groups eng cid)"
  from py_min_split [OF assms(3)] obtain ys' b zs' where
    m: "py_min (applicable_entries eng code q cid) = Some b"
    and sp: "applicable_entries eng code q cid = ys' @ b # zs'"
    and ys': "\<forall>p\<in>set ys'. tuple_lt (min_key b) (min_key p)"
    and zs': "\<forall>p\<in>set zs'. \<not> tuple_lt (min_key p) (min_key b)" by blast
  from sp have "filter ?P (prices eng) = ys' @ b # zs'"
    by (simp add: applicable_entries_def)
  from filter_split [OF this] obtain ys zs where
    l: "prices eng = ys @ b # zs" "filter ?P ys = ys'" "filter ?P zs = zs'" "?P b" by blast
  have "\<forall>p \<in> set ys. ?P p \<longrightarrow> tuple_lt (min_key b) (min_key p)"
    using ys' l(2) by auto
  moreover have "\<forall>p \<in> set zs. ?P p \<longrightarrow> \<not> tuple_lt (min_key p) (min_key b)"
    using zs' l(3) by auto
  moreover have "get_best_price eng pid q cid =
          Inr \<lparr>res_product_id = product_id b, res_price = price b,
               res_price_type = PriceType_value (source b)\<rparr>"
    using get_best_price_found [OF assms(1,2) m] by (simp add: result_of_def)
  ultimately show ?thesis using l(1,4) m by blast
qed

text \<open>
  The example engine at customer 9: two \<^verbatim>\<open>NORMAL\<close> rules share the lowest price 10,
  and the one that comes first in the list is selected.
\<close>

theorem earliest_minimal_entry_selected_witness:
  "0 < (5::int) \<and> normalize_product_code (PInt 1) = Inr (codepoints ''P001'')
   \<and> applicable_entries example_engine (codepoints ''P001'') 5 9 \<noteq> []
   \<and> min_key normal_10_first = min_key normal_10_second
   \<and> normal_10_first \<noteq> normal_10_second
   \<and> py_min (applicable_entries example_engine (codepoints ''P001'') 5 9) = Some normal_10_first
   \<and> (\<exists>ys zs. prices example_engine = ys @ normal_10_first # zs
         \<and> (\<forall>p \<in> set ys.
               is_applicable (codepoints ''P001'') 5 9 (customer_tiers example_engine 9)
                 (customer_groups example_engine 9) p
               \<longrightarrow> tuple_lt (min_key normal_10_first) (min_key p))
         \<and> (\<forall>p \<in> set zs.
               is_applicable (codepoints ''P001'') 5 9 (customer_tiers example_engine 9)
                 (customer_groups example_engine 9) p
               \<longrightarrow> \<not> tuple_lt (min_key p) (min_key normal_10_first)))"
proof -
  have h1: "0 < (5::int)" by simp
  have h2: "normalize_product_code (PInt 1) = Inr (codepoints ''P001'')" by code_simp
  have ap: "applicable_entries example_engine (codepoints ''P001'') 5 9
       = [normal_12, normal_10_first, normal_10_second]" by code_simp
  then have h3: "applicable_entries example_engine (codepoints ''P001'') 5 9 \<noteq> []" by simp
  have m: "py_min (applicable_entries example_engine (codepoints ''P001'') 5 9) = Some normal_10_first"
    by code_simp
  have k: "min_key normal_10_first = min_key normal_10_second"
    "normal_10_first \<noteq> normal_10_second"
    by (simp_all add: min_key_def normal_10_first_def normal_10_second_def)
  from earliest_minimal_entry_selected [OF h1 h2 h3] m
  have "\<exists>ys zs. prices example_engine = ys @ normal_10_first # zs
         \<and> (\<forall>p \<in> set ys.
               is_applicable (codepoints ''P001'') 5 9 (customer_tiers example_engine 9)
                 (customer_groups example_engine 9) p
               \<longrightarrow> tuple_lt (min_key normal_10_first) (min_key p))
         \<and> (\<forall>p \<in> set zs.
               is_applicable (codepoints ''P001'') 5 9 (customer_tiers example_engine 9)
                 (customer_groups example_engine 9) p
               \<longrightarrow> \<not> tuple_lt (min_key p) (min_key normal_10_first))"
    by auto
  with h1 h2 h3 m k show ?thesis by blast
qed

text \<open>
  C3. The candidate set. A rule is among the candidates exactly when it is a rule of the
  engine, its product code is the normalised code, the quantity reaches its minimum
  quantity, and its scope applies to the customer: an integer key equal to the customer
  identifier for \<^verbatim>\<open>CUSTOMER\<close>, a string key equal to the customer's tier or group for
  \<^verbatim>\<open>TIER\<close> and \<^verbatim>\<open>GROUP\<close>, nothing for \<^verbatim>\<open>NORMAL\<close>. In particular a \<^verbatim>\<open>CUSTOMER\<close> rule
  whose key is not an integer, a \<^verbatim>\<open>TIER\<close> or \<^verbatim>\<open>GROUP\<close> rule whose key is not a string,
  and any \<^verbatim>\<open>TIER\<close> rule for a customer without a tier are never candidates, and a
  \<^verbatim>\<open>NORMAL\<close> rule with the right code and minimum quantity always is. Every price that
  \<^verbatim>\<open>get_best_price\<close> returns is the price of a candidate.
\<close>

theorem candidate_set_characterisation:
  "(p \<in> set (applicable_entries eng code q cid) \<longleftrightarrow>
      p \<in> set (prices eng) \<and> product_id p = code \<and> min_qty p \<le> q \<and> scope_applies eng cid p)
   \<and> (source pc = CUSTOMER \<and> (\<forall>k. key pc \<noteq> KInt k)
        \<longrightarrow> pc \<notin> set (applicable_entries eng code q cid))
   \<and> ((source pt = TIER \<or> source pt = GROUP) \<and> (\<forall>k. key pt \<noteq> KStr k)
        \<longrightarrow> pt \<notin> set (applicable_entries eng code q cid))
   \<and> (source pa = TIER \<and> customer_tiers eng cid = None
        \<longrightarrow> pa \<notin> set (applicable_entries eng code q cid))
   \<and> (source pn = NORMAL \<and> pn \<in> set (prices eng) \<and> product_id pn = code \<and> min_qty pn \<le> q
        \<longrightarrow> pn \<in> set (applicable_entries eng code q cid))
   \<and> (0 < q \<and> normalize_product_code pid = Inr code \<and> get_best_price eng pid q cid = Inr r
        \<longrightarrow> (\<exists>b \<in> set (applicable_entries eng code q cid).
               r = \<lparr>res_product_id = code, res_price = price b,
                    res_price_type = PriceType_value (source b)\<rparr>))"
proof (intro conjI impI)
  show "p \<in> set (applicable_entries eng code q cid) \<longleftrightarrow>
      p \<in> set (prices eng) \<and> product_id p = code \<and> min_qty p \<le> q \<and> scope_applies eng cid p"
    by (simp add: applicable_entries_set is_applicable_iff)
next
  assume "source pc = CUSTOMER \<and> (\<forall>k. key pc \<noteq> KInt k)"
  then show "pc \<notin> set (applicable_entries eng code q cid)"
    by (auto simp: applicable_entries_set is_applicable_iff scope_applies_def)
next
  assume "(source pt = TIER \<or> source pt = GROUP) \<and> (\<forall>k. key pt \<noteq> KStr k)"
  then show "pt \<notin> set (applicable_entries eng code q cid)"
    by (auto simp: applicable_entries_set is_applicable_iff scope_applies_def
        split: option.splits)
next
  assume "source pa = TIER \<and> customer_tiers eng cid = None"
  then have "\<not> scope_applies eng cid pa" by (simp add: scope_applies_def)
  then show "pa \<notin> set (applicable_entries eng code q cid)"
    by (simp add: applicable_entries_set is_applicable_iff)
next
  assume "source pn = NORMAL \<and> pn \<in> set (prices eng) \<and> product_id pn = code \<and> min_qty pn \<le> q"
  then show "pn \<in> set (applicable_entries eng code q cid)"
    by (auto simp: applicable_entries_set is_applicable_iff scope_applies_def)
next
  assume a: "0 < q \<and> normalize_product_code pid = Inr code
     \<and> get_best_price eng pid q cid = Inr r"
  then have "0 < q" "normalize_product_code pid = Inr code" by simp_all
  from get_best_price_cases [OF this, of eng cid] a
  show "\<exists>b \<in> set (applicable_entries eng code q cid).
               r = \<lparr>res_product_id = code, res_price = price b,
                    res_price_type = PriceType_value (source b)\<rparr>"
    by (auto simp: result_of_def)
qed

text \<open>
  The example engine at customer 6, who has no tier: the rule keyed by the integer 6 is a
  candidate, the \<^verbatim>\<open>CUSTOMER\<close> rule keyed by the string \<^verbatim>\<open>"6"\<close>, the \<^verbatim>\<open>TIER\<close> rule keyed
  by an integer and the \<^verbatim>\<open>GOLD\<close> rule are not.
\<close>

theorem candidate_set_characterisation_witness:
  "customer_50 \<in> set (prices example_engine) \<and> product_id customer_50 = (codepoints ''P001'')
   \<and> min_qty customer_50 \<le> 5 \<and> scope_applies example_engine 6 customer_50
   \<and> customer_50 \<in> set (applicable_entries example_engine (codepoints ''P001'') 5 6)
   \<and> source customer_str_key = CUSTOMER \<and> (\<forall>k. key customer_str_key \<noteq> KInt k)
   \<and> customer_str_key \<notin> set (applicable_entries example_engine (codepoints ''P001'') 5 6)
   \<and> source tier_int_key = TIER \<and> (\<forall>k. key tier_int_key \<noteq> KStr k)
   \<and> tier_int_key \<notin> set (applicable_entries example_engine (codepoints ''P001'') 5 6)
   \<and> source tier_gold = TIER \<and> customer_tiers example_engine 6 = None
   \<and> tier_gold \<notin> set (applicable_entries example_engine (codepoints ''P001'') 5 6)
   \<and> source normal_10_first = NORMAL \<and> normal_10_first \<in> set (prices example_engine)
   \<and> product_id normal_10_first = (codepoints ''P001'') \<and> min_qty normal_10_first \<le> 5
   \<and> normal_10_first \<in> set (applicable_entries example_engine (codepoints ''P001'') 5 6)
   \<and> 0 < (5::int) \<and> normalize_product_code (PInt 1) = Inr (codepoints ''P001'')
   \<and> get_best_price example_engine (PInt 1) 5 6 =
       Inr \<lparr>res_product_id = (codepoints ''P001''), res_price = 50, res_price_type = ''CUSTOMER''\<rparr>
   \<and> (\<exists>b \<in> set (applicable_entries example_engine (codepoints ''P001'') 5 6).
         \<lparr>res_product_id = (codepoints ''P001''), res_price = 50, res_price_type = ''CUSTOMER''\<rparr>
           = \<lparr>res_product_id = (codepoints ''P001''), res_price = price b,
              res_price_type = PriceType_value (source b)\<rparr>)"
proof -
  have a1: "customer_50 \<in> set (prices example_engine) \<and> product_id customer_50 = (codepoints ''P001'')
     \<and> min_qty customer_50 \<le> 5 \<and> scope_applies example_engine 6 customer_50"
    by (simp add: example_engine_def customer_50_def scope_applies_def)
  have a2: "source customer_str_key = CUSTOMER \<and> (\<forall>k. key customer_str_key \<noteq> KInt k)"
    by (simp add: customer_str_key_def)
  have a3: "(source tier_int_key = TIER \<or> source tier_int_key = GROUP)
     \<and> (\<forall>k. key tier_int_key \<noteq> KStr k)"
    by (simp add: tier_int_key_def)
  have a4: "source tier_gold = TIER \<and> customer_tiers example_engine 6 = None"
    by (simp add: tier_gold_def example_engine_def)
  have a5: "source normal_10_first = NORMAL \<and> normal_10_first \<in> set (prices example_engine)
     \<and> product_id normal_10_first = (codepoints ''P001'') \<and> min_qty normal_10_first \<le> 5"
    by (simp add: normal_10_first_def example_engine_def)
  have a6: "0 < (5::int) \<and> normalize_product_code (PInt 1) = Inr (codepoints ''P001'')
     \<and> get_best_price example_engine (PInt 1) 5 6 =
       Inr \<lparr>res_product_id = (codepoints ''P001''), res_price = 50, res_price_type = ''CUSTOMER''\<rparr>"
    by code_simp
  note c = candidate_set_characterisation [where eng = example_engine and code = "(codepoints ''P001'')"
      and q = 5 and cid = 6 and p = customer_50 and pc = customer_str_key
      and pt = tier_int_key and pa = tier_gold and pn = normal_10_first and pid = "PInt 1"
      and r = "\<lparr>res_product_id = (codepoints ''P001''), res_price = 50, res_price_type = ''CUSTOMER''\<rparr>"]
  from c a1 have b1: "customer_50 \<in> set (applicable_entries example_engine (codepoints ''P001'') 5 6)"
    by blast
  from c a2 have b2: "customer_str_key \<notin> set (applicable_entries example_engine (codepoints ''P001'') 5 6)"
    by blast
  from c a3 have b3: "tier_int_key \<notin> set (applicable_entries example_engine (codepoints ''P001'') 5 6)"
    by blast
  from c a4 have b4: "tier_gold \<notin> set (applicable_entries example_engine (codepoints ''P001'') 5 6)"
    by blast
  from c a5 have b5: "normal_10_first \<in> set (applicable_entries example_engine (codepoints ''P001'') 5 6)"
    by blast
  from c a6 have b6: "\<exists>b \<in> set (applicable_entries example_engine (codepoints ''P001'') 5 6).
         \<lparr>res_product_id = (codepoints ''P001''), res_price = 50, res_price_type = ''CUSTOMER''\<rparr>
           = \<lparr>res_product_id = (codepoints ''P001''), res_price = price b,
              res_price_type = PriceType_value (source b)\<rparr>"
    by blast
  have a3': "source tier_int_key = TIER" by (simp add: tier_int_key_def)
  from a1 a2 a3 a3' a4 a5 a6 b1 b2 b3 b4 b5 b6 show ?thesis
    by simp
qed

text \<open>
  C4. Invalid quantity. For every quantity that is zero or negative, and every engine,
  product identifier (also one that normalisation rejects) and customer,
  \<^verbatim>\<open>get_best_price\<close> raises the error whose message is
  \<^verbatim>\<open>Quantity must be greater than zero.\<close>; the product identifier is not looked at before.
  For a positive quantity that error is never the result.
\<close>

theorem invalid_quantity:
  "(q \<le> 0 \<longrightarrow>
      get_best_price eng pid q cid
        = Inl (PricingError (codepoints ''Quantity must be greater than zero.'')))
   \<and> (0 < q' \<longrightarrow>
      get_best_price eng pid q' cid
        \<noteq> Inl (PricingError (codepoints ''Quantity must be greater than zero.'')))"
proof (intro conjI impI)
  assume "q \<le> 0"
  then show "get_best_price eng pid q cid
      = Inl (PricingError (codepoints ''Quantity must be greater than zero.''))"
    by (simp add: get_best_price_def)
next
  assume q: "0 < q'"
  show "get_best_price eng pid q' cid
      \<noteq> Inl (PricingError (codepoints ''Quantity must be greater than zero.''))"
  proof (cases "normalize_product_code pid")
    case (Inl e)
    then have "e \<noteq> PricingError (codepoints ''Quantity must be greater than zero.'')"
      by (auto simp: normalize_product_code_def codepoints_def py_int_def
          split: product_ident.splits if_splits)
    with Inl q show ?thesis by (simp add: get_best_price_def)
  next
    case (Inr code)
    from get_best_price_cases [OF q Inr, of eng cid] show ?thesis
      by (auto simp: no_price_msg_neq)
  qed
qed

text \<open>
  The engine of the tests with the identifier \<^verbatim>\<open>xyz\<close>, which normalisation rejects:
  quantity 0 gives the quantity error, quantity 1 the error of the normaliser.
\<close>

theorem invalid_quantity_witness:
  "(0::int) \<le> 0
   \<and> normalize_product_code (PStr ''xyz'')
       = Inl (PricingError (codepoints ''Invalid product_id: xyz''))
   \<and> get_best_price test_engine (PStr ''xyz'') 0 2
       = Inl (PricingError (codepoints ''Quantity must be greater than zero.''))
   \<and> 0 < (1::int)
   \<and> get_best_price test_engine (PStr ''xyz'') 1 2
       \<noteq> Inl (PricingError (codepoints ''Quantity must be greater than zero.''))"
proof -
  have n: "normalize_product_code (PStr ''xyz'')
      = Inl (PricingError (codepoints ''Invalid product_id: xyz''))"
    by code_simp
  from invalid_quantity [where q = 0 and q' = 1 and eng = test_engine
      and pid = "PStr ''xyz''" and cid = 2] n
  show ?thesis by simp
qed

text \<open>
  C5. No price found. For a positive quantity and a product identifier that normalises
  to \<open>code\<close>, \<^verbatim>\<open>get_best_price\<close> raises an error exactly when no rule of the engine has
  the product code \<open>code\<close>, a minimum quantity reached by the quantity, and a scope that
  applies to the customer. The error is then the one whose message is
  \<^verbatim>\<open>No price found for <code> with quantity <d>.\<close> where \<open>d\<close> is the decimal numeral of the
  quantity: a non-empty string of decimal digits, without a leading zero, whose value is
  the quantity.
\<close>

theorem no_price_found_iff:
  assumes "0 < q" and "normalize_product_code pid = Inr code"
  shows "((\<exists>e. get_best_price eng pid q cid = Inl e) \<longleftrightarrow>
           \<not> (\<exists>p \<in> set (prices eng).
                 product_id p = code \<and> min_qty p \<le> q \<and> scope_applies eng cid p))
       \<and> (\<exists>d. (\<forall>e. get_best_price eng pid q cid = Inl e \<longrightarrow>
                   e = PricingError (codepoints ''No price found for '' @ code
                         @ codepoints ('' with quantity '' @ d @ ''.'')))
              \<and> d \<noteq> [] \<and> list_all is_decimal_char d \<and> int_of_str d = q
              \<and> hd d \<noteq> CHR ''0'')"
proof -
  have emp: "applicable_entries eng code q cid = [] \<longleftrightarrow>
      \<not> (\<exists>p \<in> set (prices eng).
                 product_id p = code \<and> min_qty p \<le> q \<and> scope_applies eng cid p)"
    by (simp add: applicable_entries_def filter_empty_conv is_applicable_iff)
  from get_best_price_cases [OF assms, of eng cid] emp
  have iff: "(\<exists>e. get_best_price eng pid q cid = Inl e) \<longleftrightarrow>
           \<not> (\<exists>p \<in> set (prices eng).
                 product_id p = code \<and> min_qty p \<le> q \<and> scope_applies eng cid p)"
    by auto
  from get_best_price_cases [OF assms, of eng cid]
  have msg: "\<forall>e. get_best_price eng pid q cid = Inl e \<longrightarrow>
                   e = PricingError (codepoints ''No price found for '' @ code
                         @ codepoints ('' with quantity '' @ str_int q @ ''.''))"
    by (auto simp: no_price_msg_def)
  from assms(1) have s: "str_int q = str_nat (nat q)" and pos: "0 < nat q"
    by (simp_all add: str_int_def)
  have d1: "str_int q \<noteq> []" by (simp add: s str_nat_nonempty)
  have d2: "list_all is_decimal_char (str_int q)" by (simp add: s str_nat_digits)
  have d3: "int_of_str (str_int q) = q"
    using assms(1) by (simp add: s int_of_str_def parse_str_nat)
  have d4: "hd (str_int q) \<noteq> CHR ''0''" using pos by (simp add: s hd_str_nat)
  from msg d1 d2 d3 d4
  have "\<exists>d. (\<forall>e. get_best_price eng pid q cid = Inl e \<longrightarrow>
                   e = PricingError (codepoints ''No price found for '' @ code
                         @ codepoints ('' with quantity '' @ d @ ''.'')))
              \<and> d \<noteq> [] \<and> list_all is_decimal_char d \<and> int_of_str d = q
              \<and> hd d \<noteq> CHR ''0''"
    by blast
  with iff show ?thesis by blast
qed

text \<open>
  The engine of the tests has no rule for \<^verbatim>\<open>P999\<close>, asked for with quantity 37, and its
  only rule for \<^verbatim>\<open>P003\<close> needs a quantity of 2 although the group of customer 6 matches.
\<close>

theorem no_price_found_iff_witness:
  "0 < (37::int) \<and> normalize_product_code (PInt 999) = Inr (codepoints ''P999'')
   \<and> \<not> (\<exists>p \<in> set (prices test_engine).
            product_id p = codepoints ''P999'' \<and> min_qty p \<le> 37 \<and> scope_applies test_engine 2 p)
   \<and> (\<exists>e. get_best_price test_engine (PInt 999) 37 2 = Inl e)
   \<and> get_best_price test_engine (PInt 999) 37 2
       = Inl (PricingError (codepoints ''No price found for P999 with quantity 37.''))
   \<and> get_best_price test_engine (PInt 3) 1 6
       = Inl (PricingError (codepoints ''No price found for P003 with quantity 1.''))"
proof -
  have h1: "0 < (37::int)" by simp
  have h2: "normalize_product_code (PInt 999) = Inr (codepoints ''P999'')" by code_simp
  have none: "\<not> (\<exists>p \<in> set (prices test_engine).
            product_id p = codepoints ''P999'' \<and> min_qty p \<le> 37
            \<and> scope_applies test_engine 2 p)"
    by code_simp
  from no_price_found_iff [OF h1 h2, where eng = test_engine and cid = 2] none
  have ex: "\<exists>e. get_best_price test_engine (PInt 999) 37 2 = Inl e" by blast
  have r: "get_best_price test_engine (PInt 999) 37 2
       = Inl (PricingError (codepoints ''No price found for P999 with quantity 37.''))"
    by code_simp
  have e: "get_best_price test_engine (PInt 3) 1 6
       = Inl (PricingError (codepoints ''No price found for P003 with quantity 1.''))"
    by code_simp
  from h1 h2 none ex r e show ?thesis by blast
qed

section \<open>Claims about the normaliser\<close>

text \<open>
  C6. Integers and digit strings. For every integer \<open>n \<ge> 0\<close> the normalised code is
  \<^verbatim>\<open>P\<close> followed by a string of decimal digits whose value is \<open>n\<close>, of length at least
  3, and with no leading zero once it is longer than 3: \<open>n\<close> padded with zeros to three
  digits and never truncated. A non-empty string of decimal digits normalises to what
  its integer value normalises to. 1 gives \<^verbatim>\<open>P001\<close> and 1000 gives \<^verbatim>\<open>P1000\<close>.
\<close>

theorem normalize_integer_and_digit_string:
  "(0 \<le> n \<longrightarrow>
      (\<exists>d. normalize_product_code (PInt n) = Inr (codepoints (CHR ''P'' # d))
          \<and> list_all is_decimal_char d \<and> int_of_str d = n
          \<and> 3 \<le> length d \<and> (3 < length d \<longrightarrow> hd d \<noteq> CHR ''0'')))
   \<and> (s \<noteq> [] \<and> list_all is_decimal_char s \<longrightarrow>
        normalize_product_code (PStr s) = normalize_product_code (PInt (int_of_str s)))
   \<and> normalize_product_code (PInt 1) = Inr (codepoints ''P001'')
   \<and> normalize_product_code (PInt 1000) = Inr (codepoints ''P1000'')"
proof (intro conjI impI)
  assume n: "0 \<le> n"
  have "normalize_product_code (PInt n) = Inr (codepoints (CHR ''P'' # format_03d n))"
    by (simp add: normalize_product_code_def)
  with format_03d_nonneg_props [OF n]
  show "\<exists>d. normalize_product_code (PInt n) = Inr (codepoints (CHR ''P'' # d))
          \<and> list_all is_decimal_char d \<and> int_of_str d = n
          \<and> 3 \<le> length d \<and> (3 < length d \<longrightarrow> hd d \<noteq> CHR ''0'')"
    by blast
next
  assume d: "s \<noteq> [] \<and> list_all is_decimal_char s"
  then have "\<not> startswith (upper s) (codepoints ''P'')"
    by (simp add: startswith_upper_P decimal_not_P)
  moreover from d have "isdigit s" by (simp add: decimal_isdigit)
  moreover from d have "py_int s = Inr (int_of_str s)" by (simp add: py_int_def)
  ultimately
  show "normalize_product_code (PStr s) = normalize_product_code (PInt (int_of_str s))"
    by (simp add: normalize_product_code_def)
next
  show "normalize_product_code (PInt 1) = Inr (codepoints ''P001'')" by code_simp
next
  show "normalize_product_code (PInt 1000) = Inr (codepoints ''P1000'')" by code_simp
qed

text \<open>The integer 7 and the string \<^verbatim>\<open>42\<close>.\<close>

theorem normalize_integer_and_digit_string_witness:
  "(0::int) \<le> 7 \<and> ''42'' \<noteq> [] \<and> list_all is_decimal_char ''42'' \<and> isdigit ''42''
   \<and> int_of_str ''42'' = 42
   \<and> normalize_product_code (PInt 7) = Inr (codepoints ''P007'')
   \<and> normalize_product_code (PStr ''42'') = normalize_product_code (PInt 42)
   \<and> normalize_product_code (PStr ''42'') = Inr (codepoints ''P042'')"
proof -
  have h1: "(0::int) \<le> 7" by simp
  have h2: "''42'' \<noteq> [] \<and> list_all is_decimal_char ''42''" by code_simp
  have h3: "isdigit ''42''" by code_simp
  have v: "int_of_str ''42'' = 42" by code_simp
  have n7: "normalize_product_code (PInt 7) = Inr (codepoints ''P007'')" by code_simp
  have n42: "normalize_product_code (PInt 42) = Inr (codepoints ''P042'')" by code_simp
  from normalize_integer_and_digit_string [where n = 7 and s = "''42''"] h2 v
  have "normalize_product_code (PStr ''42'') = normalize_product_code (PInt 42)" by simp
  with h1 h2 h3 v n7 n42 show ?thesis by simp
qed



text \<open>
  C8. Invalid product identifiers. By its docstring the normaliser raises \<^verbatim>\<open>PricingError\<close>
  for every string of invalid format, with the message \<^verbatim>\<open>Invalid product_id: \<close> followed
  by the string: for every string that neither begins with \<^verbatim>\<open>P\<close> or \<^verbatim>\<open>p\<close> nor consists
  of decimal digits. The code does so whenever \<^verbatim>\<open>isdigit\<close> rejects the string (lemma
  \<open>invalid_product_identifier_raised\<close>), but not on the one-character string U+00B2,
  superscript two: it is no decimal digit and does not begin with \<^verbatim>\<open>P\<close>, yet \<^verbatim>\<open>isdigit\<close>
  accepts it, so the normaliser calls \<^verbatim>\<open>int\<close> on it, which raises \<^verbatim>\<open>ValueError\<close>.
  There neither the normaliser nor \<^verbatim>\<open>get_best_price\<close> raises the \<^verbatim>\<open>PricingError\<close>.
\<close>

theorem superscript_digit_raises_ValueError:
  "\<not> starts_with_P_or_p [CHR 0xB2] \<and> \<not> list_all is_decimal_char [CHR 0xB2]
   \<and> isdigit [CHR 0xB2] \<and> py_int [CHR 0xB2] = Inl ValueError
   \<and> normalize_product_code (PStr [CHR 0xB2]) = Inl ValueError
   \<and> normalize_product_code (PStr [CHR 0xB2])
       \<noteq> Inl (PricingError (codepoints ''Invalid product_id: '' @ codepoints [CHR 0xB2]))
   \<and> get_best_price test_engine (PStr [CHR 0xB2]) 1 2 = Inl ValueError"
proof -
  have a: "\<not> starts_with_P_or_p [CHR 0xB2]" by code_simp
  have b: "\<not> list_all is_decimal_char [CHR 0xB2]" by code_simp
  have c: "isdigit [CHR 0xB2]" by code_simp
  have d: "py_int [CHR 0xB2] = Inl ValueError" by code_simp
  have e: "normalize_product_code (PStr [CHR 0xB2]) = Inl ValueError" by code_simp
  have f: "get_best_price test_engine (PStr [CHR 0xB2]) 1 2 = Inl ValueError" by code_simp
  from a b c d e f show ?thesis by simp
qed

text \<open>
  C10. Negative integers. The normaliser raises no error on any integer; \<open>-5\<close> gives
  \<^verbatim>\<open>P-05\<close>. With a negative integer, a positive quantity and rules whose product codes
  are all canonical (a \<^verbatim>\<open>P\<close> followed by digits), \<^verbatim>\<open>get_best_price\<close> goes on to the
  candidate search, finds nothing, and raises the \<^verbatim>\<open>No price found\<close> error for the
  non-canonical code.
\<close>

theorem negative_integer_accepted:
  "(\<exists>c. normalize_product_code (PInt n) = Inr c)
   \<and> normalize_product_code (PInt (- 5)) = Inr (codepoints ''P-05'')
   \<and> (m < 0 \<and> 0 < q \<and> (\<forall>p \<in> set (prices eng). canonical_code (product_id p)) \<longrightarrow>
        get_best_price eng (PInt m) q cid =
          Inl (PricingError (codepoints (''No price found for '' @ ''P'' @ format_03d m
                 @ '' with quantity '' @ str_int q @ ''.''))))"
proof (intro conjI impI)
  show "\<exists>c. normalize_product_code (PInt n) = Inr c"
    by (simp add: normalize_product_code_def)
next
  show "normalize_product_code (PInt (- 5)) = Inr (codepoints ''P-05'')" by code_simp
next
  assume a: "m < 0 \<and> 0 < q \<and> (\<forall>p \<in> set (prices eng). canonical_code (product_id p))"
  have nm: "normalize_product_code (PInt m) = Inr (codepoints (''P'' @ format_03d m))"
    by (simp add: normalize_product_code_def)
  have "\<forall>p \<in> set (prices eng). product_id p \<noteq> codepoints (''P'' @ format_03d m)"
    using a canonical_code_not_negative [of m] by metis
  then have "applicable_entries eng (codepoints (''P'' @ format_03d m)) q cid = []"
    by (simp add: applicable_entries_def filter_empty_conv is_applicable_def)
  with a nm show "get_best_price eng (PInt m) q cid =
          Inl (PricingError (codepoints (''No price found for '' @ ''P'' @ format_03d m
                 @ '' with quantity '' @ str_int q @ ''.'')))"
    by (simp add: get_best_price_def codepoints_def)
qed

text \<open>The product identifier \<open>-5\<close> at the engine of the tests.\<close>

theorem negative_integer_accepted_witness:
  "(- 5::int) < 0 \<and> 0 < (1::int)
   \<and> list_all (\<lambda>p. canonical_code (product_id p)) (prices test_engine)
   \<and> get_best_price test_engine (PInt (- 5)) 1 2
       = Inl (PricingError (codepoints ''No price found for P-05 with quantity 1.''))"
proof -
  have c: "list_all (\<lambda>p. canonical_code (product_id p)) (prices test_engine)" by code_simp
  then have c': "\<forall>p \<in> set (prices test_engine). canonical_code (product_id p)"
    by (simp only: list_all_iff)
  have msg: "''No price found for '' @ ''P'' @ format_03d (- 5) @ '' with quantity ''
      @ str_int 1 @ ''.'' = ''No price found for P-05 with quantity 1.''" by code_simp
  from negative_integer_accepted [where m = "- 5" and q = 1 and eng = test_engine and cid = 2] c'
  have "get_best_price test_engine (PInt (- 5)) 1 2 =
          Inl (PricingError (codepoints (''No price found for '' @ ''P'' @ format_03d (- 5)
                 @ '' with quantity '' @ str_int 1 @ ''.'')))"
    by simp
  then have "get_best_price test_engine (PInt (- 5)) 1 2
       = Inl (PricingError (codepoints ''No price found for P-05 with quantity 1.''))"
    by (simp only: msg)
  with c show ?thesis by simp
qed

end
